theory Spec2Isabelle
  imports Main "HOL-Library.List_Lexorder" "HOL-Library.Char_ord" "HOL-Library.Multiset"
    "HOL-Library.Sublist"
begin

section \<open>Python strings\<close>

text \<open>
  A Python \<open>str\<close> is a \<^typ>\<open>string\<close>. The order on strings is the lexicographic order
  of \<open>List_Lexorder\<close> over the character codes of \<open>Char_ord\<close>, which is the order
  Python's \<open>sorted\<close> uses on strings.
\<close>

abbreviation apostrophe :: char where
  "apostrophe \<equiv> CHR 0x27"

abbreviation dquote :: char where
  "dquote \<equiv> CHR 0x22"

text \<open>\<open>sep.join(xs)\<close>\<close>

fun join :: "string \<Rightarrow> string list \<Rightarrow> string" where
  "join sep [] = []"
| "join sep [x] = x"
| "join sep (x # y # ys) = x @ sep @ join sep (y # ys)"

text \<open>
  \<open>s.split(sep, 1)\<close> for a one-character separator that occurs in \<open>s\<close>: the text before
  the first occurrence and the text after it.
\<close>

definition split1 :: "char \<Rightarrow> string \<Rightarrow> string \<times> string" where
  "split1 sep s = (takeWhile (\<lambda>c. c \<noteq> sep) s, tl (dropWhile (\<lambda>c. c \<noteq> sep) s))"

text \<open>Truth value of an attribute that is \<open>None\<close> (or missing) or a string.\<close>

fun truthy :: "string option \<Rightarrow> bool" where
  "truthy None = False"
| "truthy (Some s) = (s \<noteq> [])"


section \<open>util.py\<close>

subsection \<open>Requirement objects\<close>

text \<open>
  The fields of a parsed requirement that util.py reads or writes: the distribution name,
  the requested extras, the version clauses as (operator, version) pairs (the attribute
  \<open>specs\<close> read by \<open>requires_to_requires_dist\<close>; the clauses of \<open>specifier\<close> of
  a \<open>packaging\<close> requirement), the direct URL and the marker. A marker is represented by
  its text, that is by what \<open>str\<close> and \<open>%s\<close> give for it.
\<close>

record requirement =
  name :: string
  extras :: "string list"
  specs :: "(string \<times> string) list"
  url :: "string option"
  marker :: "string option"

subsection \<open>requires_to_requires_dist\<close>

definition requires_to_requires_dist :: "requirement \<Rightarrow> string" where
  "requires_to_requires_dist requirement =
     (if truthy (url requirement) then
        (case url requirement of Some u \<Rightarrow> '' @ '' @ u | None \<Rightarrow> [])
      else
        (let requires_dist = map (\<lambda>(op, ver). op @ ver) (specs requirement)
         in if requires_dist = [] then []
            else '' ('' @ join '','' (sort requires_dist) @ '')''))"

text \<open>
  The rendering as the specification words it for every requirement without a direct URL:
  render each pair, sort, join with commas, wrap in parentheses after a space.
\<close>

definition renderSpecifier_spec :: "(string \<times> string) list \<Rightarrow> string" where
  "renderSpecifier_spec pairs =
     '' ('' @ join '','' (sort (map (\<lambda>(op, ver). op @ ver) pairs)) @ '')''"

subsection \<open>generate_requirements\<close>

text \<open>
  \<open>generate_requirements\<close> is a generator. A run of a generator is modelled by the list of
  the values it yields, in order, and by how it ends: \<open>None\<close> when it returns (the
  iteration is exhausted), \<open>Some e\<close> when the exception \<open>e\<close> leaves it. The values
  yielded before an exception have been handed to the consumer when it is raised.
\<close>

datatype error = InvalidRequirement string

type_synonym field = "string \<times> string"

type_synonym 'a generator_run = "'a list \<times> error option"

text \<open>
  \<open>Requirement(dependency)\<close> and \<open>str(new_req)\<close> belong to the library \<open>packaging\<close>,
  which is not part of the repository: they are the parameters \<open>Requirement\<close> and
  \<open>to_str\<close> of the model. The constructor either raises or returns the parsed
  requirement.
\<close>

type_synonym parser = "string \<Rightarrow> error + requirement"

text \<open>Lines 30 to 33: the key of an entry, split into the extra and the condition.\<close>

definition split_extra :: "string option \<Rightarrow> string \<times> string" where
  "split_extra key =
     (let extra = (case key of None \<Rightarrow> [] | Some s \<Rightarrow> s)
      in if CHR '':'' \<in> set extra then split1 (CHR '':'') extra else (extra, []))"

text \<open>Lines 35 to 39: the condition after the extra has been taken into account.\<close>

definition extra_condition :: "string \<Rightarrow> string \<Rightarrow> string" where
  "extra_condition extra condition =
     (if extra \<noteq> [] then
        (if condition \<noteq> [] then ''('' @ condition @ '') and '' else [])
          @ ''extra == '' @ [apostrophe] @ extra @ [apostrophe]
      else condition)"

text \<open>Lines 43 to 47: the marker of the parsed requirement, combined with the condition.\<close>

definition add_condition :: "string \<Rightarrow> requirement \<Rightarrow> requirement" where
  "add_condition condition new_req =
     (if condition \<noteq> [] then
        (case marker new_req of
           Some m \<Rightarrow> new_req\<lparr>marker := Some (''('' @ m @ '') and '' @ condition)\<rparr>
         | None \<Rightarrow> new_req\<lparr>marker := Some condition\<rparr>)
      else new_req)"

text \<open>Lines 41 to 48: the loop over the requirements of one entry.\<close>

fun depends_loop ::
  "parser \<Rightarrow> (requirement \<Rightarrow> string) \<Rightarrow> string \<Rightarrow> string list \<Rightarrow> field generator_run"
where
  "depends_loop Requirement to_str condition [] = ([], None)"
| "depends_loop Requirement to_str condition (dependency # rest) =
     (case Requirement dependency of
        Inl e \<Rightarrow> ([], Some e)
      | Inr new_req \<Rightarrow>
          (let (ys, r) = depends_loop Requirement to_str condition rest
           in ((''Requires-Dist'', to_str (add_condition condition new_req)) # ys, r)))"

text \<open>
  The dictionary \<open>extras_require\<close> is the list of its items in iteration order; a key
  may be \<open>None\<close> (line 31).
\<close>

fun generate_requirements ::
  "parser \<Rightarrow> (requirement \<Rightarrow> string) \<Rightarrow> (string option \<times> string list) list
     \<Rightarrow> field generator_run"
where
  "generate_requirements Requirement to_str [] = ([], None)"
| "generate_requirements Requirement to_str ((key, depends) # rest) =
     (let (extra, condition) = split_extra key;
          provides = (if extra \<noteq> [] then [(''Provides-Extra'', extra)] else []);
          (ys, r) = depends_loop Requirement to_str (extra_condition extra condition) depends
      in case r of
           Some e \<Rightarrow> (provides @ ys, Some e)
         | None \<Rightarrow>
             (let (zs, r') = generate_requirements Requirement to_str rest
              in (provides @ ys @ zs, r')))"

text \<open>
  What a caller obtains from exhausting the generator, as \<open>list(...)\<close> does: the
  exception, or the complete sequence.
\<close>

fun exhaust :: "'a generator_run \<Rightarrow> error + 'a list" where
  "exhaust (ys, Some e) = Inl e"
| "exhaust (ys, None) = Inr ys"

subsection \<open>The library packaging\<close>

text \<open>
  \<open>str\<close> of a \<open>packaging\<close> requirement: the name, the sorted extras in brackets, the
  version clauses (a set) sorted and joined by commas with no parentheses, the URL after
  \<open>@\<close>, and the marker after a semicolon. Releases of the library differ in the
  blank before \<open>@\<close>; the other parts are the same in all of them.
\<close>

definition requirement_str :: "requirement \<Rightarrow> string" where
  "requirement_str r =
     name r
     @ (if extras r \<noteq> [] then ''['' @ join '','' (sort (extras r)) @ '']'' else [])
     @ (if specs r \<noteq> [] then
          join '','' (remdups (sort (map (\<lambda>(op, ver). op @ ver) (specs r))))
        else [])
     @ (case url r of
          Some u \<Rightarrow> (if u \<noteq> [] then '' @ '' @ u @ (if truthy (marker r) then '' '' else []) else [])
        | None \<Rightarrow> [])
     @ (case marker r of
          Some m \<Rightarrow> (if m \<noteq> [] then ''; '' @ m else [])
        | None \<Rightarrow> [])"

text \<open>
  The requirement strings used in the scenarios below, with what the \<open>packaging\<close> parser
  returns for each; \<open>!!bad\<close> stands for a string that is not a requirement. The
  general theorems hold for every parser; this one only serves to evaluate them.
\<close>

definition Requirement_sample :: parser where
  "Requirement_sample s =
     (if s = ''six>=1.10'' then
        Inr \<lparr>name = ''six'', extras = [], specs = [(''>='', ''1.10'')], url = None, marker = None\<rparr>
      else if s = ''black'' then
        Inr \<lparr>name = ''black'', extras = [], specs = [], url = None, marker = None\<rparr>
      else if s = ''pytest>=6'' then
        Inr \<lparr>name = ''pytest'', extras = [], specs = [(''>='', ''6'')], url = None, marker = None\<rparr>
      else if s = ''pywin32; os_name == '' @ [dquote] @ ''nt'' @ [dquote] then
        Inr \<lparr>name = ''pywin32'', extras = [], specs = [], url = None,
             marker = Some (''os_name == '' @ [dquote] @ ''nt'' @ [dquote])\<rparr>
      else Inl (InvalidRequirement s))"


section \<open>helpers.py\<close>

subsection \<open>The file system\<close>

text \<open>
  The directory tree below the argument \<open>root\<close>: a directory has the names of its files
  and its subdirectories by name, both in the order in which the operating system lists
  them. A path is the list of its components below \<open>root\<close>, so that
  \<open>os.path.join(p, n)\<close> is \<open>p @ [n]\<close> and \<open>root\<close> itself is \<open>[]\<close>. Names
  are single path components. Symbolic links are not part of the model.
\<close>

type_synonym path = "string list"

datatype node = Dir (files: "string list") (subdirs: "(string \<times> node) list")

fun lookup :: "node \<Rightarrow> path \<Rightarrow> node option" where
  "lookup d [] = Some d"
| "lookup d (n # p) = (case map_of (subdirs d) n of None \<Rightarrow> None | Some c \<Rightarrow> lookup c p)"

text \<open>\<open>os.path.isfile\<close>\<close>

definition isfile :: "node \<Rightarrow> path \<Rightarrow> bool" where
  "isfile fs p =
     (p \<noteq> [] \<and> (case lookup fs (butlast p) of None \<Rightarrow> False | Some d \<Rightarrow> last p \<in> set (files d)))"

text \<open>
  \<open>os.walk\<close>, top-down: the triple of a directory (its path, the names of its
  subdirectories, the names of its files), then the walks of its subdirectories in turn.
\<close>

fun walk :: "path \<Rightarrow> node \<Rightarrow> (path \<times> string list \<times> string list) list" where
  "walk dirpath (Dir fs ds) =
     (dirpath, map fst ds, fs) # concat (map (\<lambda>(n, c). walk (dirpath @ [n]) c) ds)"

definition os_walk :: "node \<Rightarrow> (path \<times> string list \<times> string list) list" where
  "os_walk root = walk [] root"

text \<open>
  \<open>Glob(os.path.join(dir, pattern))\<close> of SCons, which is not part of the repository: the
  entries directly inside \<open>dir\<close>, files and directories, whose name matches the pattern.
  A match is the pair of the directory and the name of the entry. How a name is matched
  against a pattern is the parameter \<open>fnmatch\<close>.
\<close>

type_synonym fileMatch = "path \<times> string"

definition entries :: "node \<Rightarrow> string list" where
  "entries d = files d @ map fst (subdirs d)"

definition Glob :: "(string \<Rightarrow> string \<Rightarrow> bool) \<Rightarrow> node \<Rightarrow> path \<Rightarrow> string \<Rightarrow> fileMatch list" where
  "Glob fnmatch fs dir pattern =
     (case lookup fs dir of
        None \<Rightarrow> []
      | Some d \<Rightarrow> map (Pair dir) (filter (\<lambda>n. fnmatch n pattern) (entries d)))"



subsection \<open>recursiveGlob\<close>

text \<open>
  The lines that \<open>print\<close> writes, one per skipped directory: the pattern, the path of the
  directory and the reason, which for a missing expected file carries the list
  \<open>expectFile\<close>.
\<close>

datatype notice =
  NameIgnored string path
| ExpectedNotFound string path "string list"

text \<open>The argument \<open>expectFile\<close>: \<open>None\<close>, one string, or a list of strings.\<close>

datatype expectFile_arg = NoneArg | StrArg string | ListArg "string list"

text \<open>Lines 77 and 78.\<close>

definition ignoreNames_default :: "string list option \<Rightarrow> string list" where
  "ignoreNames_default ignoreNames =
     (case ignoreNames of None \<Rightarrow> [''__pycache__''] | Some l \<Rightarrow> l)"

definition expectFile_default :: "expectFile_arg \<Rightarrow> string list" where
  "expectFile_default expectFile =
     (case expectFile of NoneArg \<Rightarrow> [''__init__.py''] | StrArg s \<Rightarrow> [s] | ListArg l \<Rightarrow> l)"

text \<open>
  Lines 83 to 90, the body of the inner loop: the state is what has been printed and the
  list \<open>res\<close>.
\<close>

definition visit ::
  "(string \<Rightarrow> string \<Rightarrow> bool) \<Rightarrow> node \<Rightarrow> string \<Rightarrow> string list \<Rightarrow> string list \<Rightarrow> path \<Rightarrow> string
     \<Rightarrow> notice list \<times> fileMatch list \<Rightarrow> notice list \<times> fileMatch list"
where
  "visit fnmatch fs pattern ignoreNames expectFile oswroot oswdirname st =
     (case st of (printed, res) \<Rightarrow>
        if oswdirname \<in> set ignoreNames then
          (printed @ [NameIgnored pattern (oswroot @ [oswdirname])], res)
        else
          (let found = list_ex (\<lambda>fn. isfile fs (oswroot @ [oswdirname, fn])) expectFile
           in if \<not> found \<and> length expectFile > 0 then
                (printed @ [ExpectedNotFound pattern (oswroot @ [oswdirname]) expectFile], res)
              else (printed, res @ Glob fnmatch fs (oswroot @ [oswdirname]) pattern)))"

text \<open>
  The function, on the tree \<open>fs\<close> below \<open>root\<close>: what it prints and the list it returns.
\<close>

definition recursiveGlob ::
  "(string \<Rightarrow> string \<Rightarrow> bool) \<Rightarrow> node \<Rightarrow> string \<Rightarrow> string list option \<Rightarrow> expectFile_arg
     \<Rightarrow> notice list \<times> fileMatch list"
where
  "recursiveGlob fnmatch fs pattern ignoreNames expectFile =
     (let ignoreNames = ignoreNames_default ignoreNames;
          expectFile = expectFile_default expectFile;
          res = Glob fnmatch fs [] pattern
      in fold (\<lambda>(oswroot, oswdirnames, uu).
                 fold (visit fnmatch fs pattern ignoreNames expectFile oswroot) oswdirnames)
           (os_walk fs) ([], res))"


subsection \<open>prolog\<close>



text \<open>
  What \<open>prolog\<close> reads from its surroundings: the table \<open>project\<close> of pyproject.toml
  (\<open>None\<close> when opening the file, parsing it or reading the key raises), the content of
  VERSION.txt when that is a file, and the environment variables. A value of the table is
  a string, a list or a table.
\<close>

datatype toml = Str string | Arr "toml list" | Tbl "(string \<times> toml) list"







section \<open>Properties of util.py\<close>

subsection \<open>Auxiliary facts\<close>

lemma sort_mset_cong:
  fixes xs ys :: "'a::linorder list"
  assumes "mset xs = mset ys"
  shows "sort xs = sort ys"
proof -
  have "mset (sort ys) = mset xs"
    using assms by simp
  then show ?thesis
    by (rule properties_for_sort) simp
qed

lemma mset_eq_Nil_iff: "mset xs = mset ys \<Longrightarrow> (xs = []) = (ys = [])"
  by (metis mset_zero_iff)

lemma split1_first:
  "sep \<notin> set a \<Longrightarrow> split1 sep (a @ sep # b) = (a, b)"
  by (induction a) (auto simp: split1_def)

lemma split_extra_colon:
  "CHR '':'' \<notin> set nm \<Longrightarrow> split_extra (Some (nm @ '':'' @ cond)) = (nm, cond)"
  by (simp add: split_extra_def split1_first)

lemma add_condition_marker:
  "c \<noteq> [] \<Longrightarrow> add_condition c r =
     r\<lparr>marker := Some ((case marker r of None \<Rightarrow> [] | Some m \<Rightarrow> ''('' @ m @ '') and '') @ c)\<rparr>"
  by (simp add: add_condition_def split: option.splits)

lemma depends_loop_parsed:
  "list_all2 (\<lambda>d r. Requirement d = Inr r) depends reqs \<Longrightarrow>
   depends_loop Requirement to_str c depends
     = (map (\<lambda>r. (''Requires-Dist'', to_str (add_condition c r))) reqs, None)"
  by (induction depends reqs rule: list_all2_induct) simp_all

lemma depends_loop_raises:
  "d \<in> set depends \<Longrightarrow> Requirement d = Inl e \<Longrightarrow>
   \<exists>d' e'. d' \<in> set depends \<and> Requirement d' = Inl e'
     \<and> snd (depends_loop Requirement to_str c depends) = Some e'"
proof (induction depends)
  case Nil
  then show ?case by simp
next
  case (Cons a depends)
  show ?case
  proof (cases "Requirement a")
    case (Inl e0)
    then show ?thesis by auto
  next
    case (Inr r0)
    with Cons.prems have "d \<in> set depends" by auto
    from Cons.IH[OF this Cons.prems(2)] obtain d' e' where
      "d' \<in> set depends" "Requirement d' = Inl e'"
      "snd (depends_loop Requirement to_str c depends) = Some e'" by blast
    with Inr show ?thesis
      by (auto simp: split: prod.splits)
  qed
qed

lemma depends_loop_error_source:
  "snd (depends_loop Requirement to_str c depends) = Some e \<Longrightarrow>
   \<exists>d \<in> set depends. Requirement d = Inl e"
  by (induction depends) (auto split: sum.splits prod.splits)

text \<open>The run over a dictionary in two parts: the second part runs when the first returns.\<close>

lemma generate_requirements_append:
  "generate_requirements Requirement to_str (m1 @ m2) =
     (case generate_requirements Requirement to_str m1 of
        (ys, Some e) \<Rightarrow> (ys, Some e)
      | (ys, None) \<Rightarrow>
          (case generate_requirements Requirement to_str m2 of (zs, r) \<Rightarrow> (ys @ zs, r)))"
  by (induction m1) (auto simp: Let_def split: prod.splits option.splits)

text \<open>The records of one entry whose requirements all parse, wherever the entry stands.\<close>

lemma generate_requirements_entry:
  assumes "generate_requirements Requirement to_str before = (ps, None)"
      and "split_extra key = (extra, condition)"
      and "list_all2 (\<lambda>d r. Requirement d = Inr r) depends reqs"
  shows "generate_requirements Requirement to_str (before @ (key, depends) # rest) =
     (ps @ (if extra \<noteq> [] then [(''Provides-Extra'', extra)] else [])
         @ map (\<lambda>r. (''Requires-Dist'',
                  to_str (add_condition (extra_condition extra condition) r))) reqs
         @ fst (generate_requirements Requirement to_str rest),
      snd (generate_requirements Requirement to_str rest))"
  using assms(1,2) depends_loop_parsed[OF assms(3)]
  by (simp add: generate_requirements_append split: prod.splits)

lemma generate_requirements_raises:
  "(key, depends) \<in> set extras_require \<Longrightarrow> d \<in> set depends \<Longrightarrow> Requirement d = Inl e \<Longrightarrow>
   \<exists>d' e'. d' \<in> \<Union> (set ` snd ` set extras_require) \<and> Requirement d' = Inl e'
     \<and> snd (generate_requirements Requirement to_str extras_require) = Some e'"
proof (induction extras_require)
  case Nil
  then show ?case by simp
next
  case (Cons entry extras_require)
  obtain k ds where entry: "entry = (k, ds)" by (cases entry)
  obtain extra condition where sp: "split_extra k = (extra, condition)"
    by (cases "split_extra k")
  obtain ys r where dl:
    "depends_loop Requirement to_str (extra_condition extra condition) ds = (ys, r)"
    by (cases "depends_loop Requirement to_str (extra_condition extra condition) ds")
  show ?case
  proof (cases r)
    case (Some e0)
    from dl Some depends_loop_error_source[of Requirement to_str "extra_condition extra condition" ds e0]
    obtain d' where "d' \<in> set ds" "Requirement d' = Inl e0"
      by auto
    with entry sp dl Some show ?thesis
      by auto
  next
    case None
    have "(key, depends) \<noteq> entry"
    proof
      assume "(key, depends) = entry"
      with entry have "depends = ds" by simp
      with Cons.prems depends_loop_raises[of d depends Requirement e to_str
          "extra_condition extra condition"] dl None
      show False by auto
    qed
    with Cons.prems have "(key, depends) \<in> set extras_require" by auto
    from Cons.IH[OF this Cons.prems(2,3)] obtain d' e' where
      "d' \<in> \<Union> (set ` snd ` set extras_require)" "Requirement d' = Inl e'"
      "snd (generate_requirements Requirement to_str extras_require) = Some e'"
      by blast
    with entry sp dl None show ?thesis
      by (auto split: prod.splits)
  qed
qed

subsection \<open>The end-to-end scenario\<close>

text \<open>
  C2, as amended. For the dictionary \<open>{"": ["six>=1.10"], "dev": ["black"]}\<close>, with a
  parser that reads \<open>six>=1.10\<close> as the name \<open>six\<close> with the clause \<open>>=1.10\<close> and
  \<open>black\<close> as a bare name, the generator yields exactly three records, in this order, and
  returns: \<open>Requires-Dist\<close> with \<open>six>=1.10\<close>, \<open>Provides-Extra\<close> with \<open>dev\<close>,
  \<open>Requires-Dist\<close> with \<open>black; extra == 'dev'\<close>. The value of a record is \<open>str\<close> of
  the requirement, which writes the clause after the name with no blank and no
  parentheses; \<open>requires_to_requires_dist\<close> is not called.
\<close>

theorem scenario_records:
  assumes "Requirement ''six>=1.10'' =
             Inr \<lparr>name = ''six'', extras = [], specs = [(''>='', ''1.10'')], url = None, marker = None\<rparr>"
      and "Requirement ''black'' =
             Inr \<lparr>name = ''black'', extras = [], specs = [], url = None, marker = None\<rparr>"
  shows "generate_requirements Requirement requirement_str
           [(Some [], [''six>=1.10'']), (Some ''dev'', [''black''])]
         = ([(''Requires-Dist'', ''six>=1.10''),
             (''Provides-Extra'', ''dev''),
             (''Requires-Dist'', ''black; extra == '' @ [apostrophe] @ ''dev'' @ [apostrophe])],
            None)"
  using assms
  by (simp add: requirement_str_def split_extra_def extra_condition_def add_condition_def)

text \<open>The scenario with the sample parser.\<close>

theorem scenario_records_witness:
  "generate_requirements Requirement_sample requirement_str
           [(Some [], [''six>=1.10'']), (Some ''dev'', [''black''])]
         = ([(''Requires-Dist'', ''six>=1.10''),
             (''Provides-Extra'', ''dev''),
             (''Requires-Dist'', ''black; extra == '' @ [apostrophe] @ ''dev'' @ [apostrophe])],
            None)"
  using scenario_records[of Requirement_sample]
  by (simp add: Requirement_sample_def)

text \<open>
  The records of the scenario are not the three that the specification lists: the first
  value is not \<open>six (>=1.10)\<close>.
\<close>

theorem scenario_parenthesised_counterexample:
  "fst (generate_requirements Requirement_sample requirement_str
     [(Some [], [''six>=1.10'']), (Some ''dev'', [''black''])])
   \<noteq> [(''Requires-Dist'', ''six (>=1.10)''),
       (''Provides-Extra'', ''dev''),
       (''Requires-Dist'', ''black; extra == '' @ [apostrophe] @ ''dev'' @ [apostrophe])]"
  by (simp add: Requirement_sample_def requirement_str_def split_extra_def extra_condition_def
      add_condition_def)

subsection \<open>Keys with a condition\<close>



text \<open>
  C9. An entry whose key is a colon followed by a condition that is not empty: when the
  generator reaches the entry it yields no \<open>Provides-Extra\<close> record for it, only one
  \<open>Requires-Dist\<close> record for each requirement, and the marker of the requirement has
  become the condition as it stands, with no parentheses and no \<open>extra ==\<close> clause,
  preceded by \<open>(marker) and\<close> when the requirement had a marker. A key that is the colon
  alone has no condition (line 43) and leaves the requirements as they are.
\<close>

theorem condition_without_extra:
  assumes "cond \<noteq> []"
      and "generate_requirements Requirement to_str before = (ps, None)"
      and "list_all2 (\<lambda>d r. Requirement d = Inr r) depends reqs"
  shows "generate_requirements Requirement to_str
           (before @ (Some ('':'' @ cond), depends) # rest) =
     (ps @ map (\<lambda>r. (''Requires-Dist'',
                  to_str (r\<lparr>marker := Some
                    ((case marker r of None \<Rightarrow> [] | Some m \<Rightarrow> ''('' @ m @ '') and '')
                      @ cond)\<rparr>))) reqs
         @ fst (generate_requirements Requirement to_str rest),
      snd (generate_requirements Requirement to_str rest))"
proof -
  have s: "split_extra (Some ('':'' @ cond)) = ([], cond)"
    using split_extra_colon[of "[]" cond] by simp
  have c: "extra_condition [] cond = cond"
    by (simp add: extra_condition_def)
  show ?thesis
    using generate_requirements_entry[OF assms(2) s assms(3), of rest] assms(1)
    by (simp add: add_condition_marker c)
qed

text \<open>
  The key \<open>:sys_platform=='win32'\<close> with the requirements \<open>black\<close> and
  \<open>pywin32; os_name == "nt"\<close>.
\<close>

theorem condition_without_extra_witness:
  "generate_requirements Requirement_sample requirement_str
     [(Some ('':sys_platform=='' @ [apostrophe] @ ''win32'' @ [apostrophe]),
       [''black'', ''pywin32; os_name == '' @ [dquote] @ ''nt'' @ [dquote]])]
   = ([(''Requires-Dist'',
        ''black; sys_platform=='' @ [apostrophe] @ ''win32'' @ [apostrophe]),
       (''Requires-Dist'',
        ''pywin32; (os_name == '' @ [dquote] @ ''nt'' @ [dquote]
          @ '') and sys_platform=='' @ [apostrophe] @ ''win32'' @ [apostrophe])],
      None)"
  using condition_without_extra
    [where cond = "''sys_platform=='' @ [apostrophe] @ ''win32'' @ [apostrophe]"
       and Requirement = Requirement_sample and to_str = requirement_str
       and before = "[]" and ps = "[]" and rest = "[]"
       and depends = "[''black'', ''pywin32; os_name == '' @ [dquote] @ ''nt'' @ [dquote]]"
       and reqs = "[\<lparr>name = ''black'', extras = [], specs = [], url = None, marker = None\<rparr>,
          \<lparr>name = ''pywin32'', extras = [], specs = [], url = None,
           marker = Some (''os_name == '' @ [dquote] @ ''nt'' @ [dquote])\<rparr>]"]
  by (simp add: Requirement_sample_def requirement_str_def)

subsection \<open>Requirement strings that do not parse\<close>

text \<open>
  C4. When some requirement string of the dictionary does not parse, the run of the
  generator ends with the exception of the parser for a string of the dictionary: it
  never returns, so a caller that exhausts it obtains the exception and no sequence of
  records. Nothing in the function catches the exception or skips the string. The
  records of the requirements before the failing one have been yielded when the
  exception is raised; the consumer that received them receives the exception next.
\<close>

theorem unparsable_requirement_is_fatal:
  assumes "(key, depends) \<in> set extras_require" and "d \<in> set depends"
      and "Requirement d = Inl e"
  shows "\<exists>d' e'. d' \<in> \<Union> (set ` snd ` set extras_require) \<and> Requirement d' = Inl e'
           \<and> snd (generate_requirements Requirement to_str extras_require) = Some e'
           \<and> exhaust (generate_requirements Requirement to_str extras_require) = Inl e'"
proof -
  from generate_requirements_raises[where Requirement = Requirement and to_str = to_str,
      OF assms] obtain d' e' where
    *: "d' \<in> \<Union> (set ` snd ` set extras_require)" "Requirement d' = Inl e'"
       "snd (generate_requirements Requirement to_str extras_require) = Some e'"
    by blast
  from *(3) have "exhaust (generate_requirements Requirement to_str extras_require) = Inl e'"
    by (cases "generate_requirements Requirement to_str extras_require") simp
  with * show ?thesis by blast
qed

text \<open>A dictionary whose second entry holds a string that is not a requirement.\<close>

theorem unparsable_requirement_is_fatal_witness:
  "exhaust (generate_requirements Requirement_sample requirement_str
     [(Some [], [''six>=1.10'']), (Some ''dev'', [''black'', ''!!bad'']), (Some ''doc'', [''black''])])
   = Inl (InvalidRequirement ''!!bad'')"
  using unparsable_requirement_is_fatal
    [where key = "Some ''dev''" and depends = "[''black'', ''!!bad'']" and d = "''!!bad''"
       and e = "InvalidRequirement ''!!bad''"
       and Requirement = Requirement_sample and to_str = requirement_str
       and extras_require = "[(Some [], [''six>=1.10'']), (Some ''dev'', [''black'', ''!!bad'']),
                              (Some ''doc'', [''black''])]"]
  by (simp add: Requirement_sample_def requirement_str_def split_extra_def extra_condition_def
      add_condition_def)

subsection \<open>Rendering of version clauses\<close>

text \<open>
  C5, as amended. For requirements without a direct URL the rendering depends only on
  the multiset of the (operator, version) pairs, so it is the same for every order of
  the list. When the list is not empty the rendering is the one the specification
  describes: the pairs rendered as operator followed by version, sorted, joined by
  commas, in parentheses after a blank. When the list is empty the rendering is the
  empty string.
\<close>

theorem specifier_rendering_permutation_invariant:
  assumes "\<not> truthy (url r)" and "\<not> truthy (url r')" and "mset (specs r') = mset (specs r)"
  shows "requires_to_requires_dist r' = requires_to_requires_dist r
         \<and> (specs r \<noteq> [] \<longrightarrow> requires_to_requires_dist r = renderSpecifier_spec (specs r))
         \<and> (specs r = [] \<longrightarrow> requires_to_requires_dist r = [])"
proof -
  let ?f = "\<lambda>(op, ver). op @ ver :: string"
  have "mset (map ?f (specs r')) = mset (map ?f (specs r))"
    using assms(3) by (metis mset_map)
  then have s: "sort (map ?f (specs r')) = sort (map ?f (specs r))"
    by (rule sort_mset_cong)
  have e: "(specs r' = []) = (specs r = [])"
    using assms(3) by (rule mset_eq_Nil_iff)
  show ?thesis
    using assms(1,2) s e
    by (simp add: requires_to_requires_dist_def renderSpecifier_spec_def)
qed

text \<open>The two orders of the clauses \<open>>=1.0\<close> and \<open><2.0\<close>.\<close>

theorem specifier_rendering_permutation_invariant_witness:
  "requires_to_requires_dist
     \<lparr>name = ''pkg'', extras = [], specs = [(''<'', ''2.0''), (''>='', ''1.0'')], url = None, marker = None\<rparr>
   = requires_to_requires_dist
     \<lparr>name = ''pkg'', extras = [], specs = [(''>='', ''1.0''), (''<'', ''2.0'')], url = None, marker = None\<rparr>
   \<and> requires_to_requires_dist
     \<lparr>name = ''pkg'', extras = [], specs = [(''>='', ''1.0''), (''<'', ''2.0'')], url = None, marker = None\<rparr>
   = '' (<2.0,>=1.0)''"
  using specifier_rendering_permutation_invariant
    [of "\<lparr>name = ''pkg'', extras = [], specs = [(''>='', ''1.0''), (''<'', ''2.0'')], url = None, marker = None\<rparr>"
        "\<lparr>name = ''pkg'', extras = [], specs = [(''<'', ''2.0''), (''>='', ''1.0'')], url = None, marker = None\<rparr>"]
  by (simp add: renderSpecifier_spec_def)

text \<open>
  A requirement with no URL and no version clause renders as the empty string, where
  the rendering the specification describes for every requirement without a URL gives
  a blank and an empty pair of parentheses.
\<close>

theorem specifier_rendering_empty_counterexample:
  "requires_to_requires_dist
     \<lparr>name = ''black'', extras = [], specs = [], url = None, marker = None\<rparr> = []
   \<and> renderSpecifier_spec
       (specs \<lparr>name = ''black'', extras = [], specs = [], url = None, marker = None\<rparr>) = '' ()''"
  by (simp add: requires_to_requires_dist_def renderSpecifier_spec_def)

text \<open>
  C6. A requirement that carries a direct URL renders as \<open>" @ "\<close> followed by the URL,
  whatever its version clauses are: replacing the clauses by any others leaves the
  rendering unchanged, so no parenthesised clause list is rendered.
\<close>

theorem url_rendering_ignores_specs:
  assumes "url r = Some u" and "u \<noteq> []"
  shows "requires_to_requires_dist r = '' @ '' @ u
         \<and> requires_to_requires_dist (r\<lparr>specs := other\<rparr>) = requires_to_requires_dist r"
  using assms by (simp add: requires_to_requires_dist_def)

text \<open>A requirement with a URL and a version clause.\<close>

theorem url_rendering_ignores_specs_witness:
  "requires_to_requires_dist
     \<lparr>name = ''pkg'', extras = [], specs = [(''>='', ''1.0'')],
      url = Some ''https://example.com/pkg.whl'', marker = None\<rparr>
   = '' @ https://example.com/pkg.whl''"
  using url_rendering_ignores_specs
    [of "\<lparr>name = ''pkg'', extras = [], specs = [(''>='', ''1.0'')],
          url = Some ''https://example.com/pkg.whl'', marker = None\<rparr>"
        "''https://example.com/pkg.whl''"]
  by simp


section \<open>Properties of helpers.py\<close>

subsection \<open>Auxiliary facts\<close>












subsection \<open>Ignored directory names\<close>




subsection \<open>Expected files\<close>



subsection \<open>Spellings of the arguments\<close>

text \<open>
  C10. A call with the string \<open>s\<close> as \<open>expectFile\<close> prints and returns what the call with
  the list \<open>[s]\<close> does; a call with \<open>None\<close> as \<open>ignoreNames\<close> what the call with
  \<open>["__pycache__"]\<close> does; a call with \<open>None\<close> as \<open>expectFile\<close> what the call with
  \<open>["__init__.py"]\<close> does.
\<close>

theorem argument_spellings:
  "recursiveGlob fnmatch fs pattern ignoreNames (StrArg s)
     = recursiveGlob fnmatch fs pattern ignoreNames (ListArg [s])
   \<and> recursiveGlob fnmatch fs pattern None expectFile
     = recursiveGlob fnmatch fs pattern (Some [''__pycache__'']) expectFile
   \<and> recursiveGlob fnmatch fs pattern ignoreNames NoneArg
     = recursiveGlob fnmatch fs pattern ignoreNames (ListArg [''__init__.py''])"
  by (simp add: recursiveGlob_def ignoreNames_default_def expectFile_default_def)

subsection \<open>Version resolution\<close>



end
